theory Spec2Isabelle
  imports Main "HOL-Library.AList"
begin

section \<open>Python values read from a JSON file\<close>

text \<open>
  Both importers call \<^verbatim>\<open>json.load\<close> and then work on what it returns: \<^verbatim>\<open>None\<close>,
  a \<^verbatim>\<open>bool\<close>, an \<^verbatim>\<open>int\<close> (unbounded), a \<^verbatim>\<open>float\<close>, a \<^verbatim>\<open>str\<close>, a \<^verbatim>\<open>list\<close> or
  a \<^verbatim>\<open>dict\<close> with string keys. A dict keeps its insertion order, so it is an
  association list; the keys of a Python dict are distinct, and every function below
  reads an association list through \<open>map_of\<close> and writes it through \<open>AList.update\<close>,
  which, like \<^verbatim>\<open>d[k] = v\<close>, overwrites in place or appends at the end.

  The importers never compute with a float: they test its truth value and hand it on.
  A float is carried by its \<^verbatim>\<open>repr\<close>, the shortest decimal text that reads back as
  the same double (\<^verbatim>\<open>0.0\<close>, \<^verbatim>\<open>-0.0\<close>, \<^verbatim>\<open>1.5\<close>, \<^verbatim>\<open>1e+22\<close>, \<^verbatim>\<open>nan\<close>, \<^verbatim>\<open>inf\<close>).

  A \<open>string\<close> is a list of characters with code points below 256.
\<close>

datatype json =
    JNull
  | JBool bool
  | JInt int
  | JFloat string
  | JStr string
  | JArr "json list"
  | JObj "(string \<times> json) list"

text \<open>The exceptions that the two scripts can meet.\<close>

datatype py_error =
    TypeError
  | AttributeError
  | KeyError
  | ValueError
  | JSONDecodeError
  | OSError
  | DatabaseError

text \<open>Sequencing of computations that may raise: the first exception wins.\<close>

definition py_bind :: "py_error + 'a \<Rightarrow> ('a \<Rightarrow> py_error + 'b) \<Rightarrow> py_error + 'b" where
  "py_bind m f = (case m of Inl e \<Rightarrow> Inl e | Inr x \<Rightarrow> f x)"

fun starts_with :: "string \<Rightarrow> string \<Rightarrow> bool" where
  "starts_with [] s = True"
| "starts_with (c # cs) [] = False"
| "starts_with (c # cs) (d # ds) = (c = d \<and> starts_with cs ds)"

fun str_contains :: "string \<Rightarrow> string \<Rightarrow> bool" where
  "str_contains sub [] = (sub = [])"
| "str_contains sub (c # cs) = (starts_with sub (c # cs) \<or> str_contains sub cs)"

text \<open>
  \<^verbatim>\<open>key in x\<close> for a string \<open>key\<close>: membership among the keys of a dict, among the
  elements of a list, substring test on a string, and \<^verbatim>\<open>TypeError\<close> (not iterable)
  on \<^verbatim>\<open>None\<close>, a bool, an int or a float.
\<close>

fun py_in :: "string \<Rightarrow> json \<Rightarrow> py_error + bool" where
  "py_in key (JObj d) = Inr (map_of d key \<noteq> None)"
| "py_in key (JArr xs) = Inr (List.member xs (JStr key))"
| "py_in key (JStr s) = Inr (str_contains key s)"
| "py_in key x = Inl TypeError"

text \<open>
  \<^verbatim>\<open>x[key]\<close> for a string \<open>key\<close>: the value of a dict (\<^verbatim>\<open>KeyError\<close> when absent);
  \<^verbatim>\<open>TypeError\<close> on everything else (list and string indices must be integers, the
  other values are not subscriptable).
\<close>

fun py_getitem :: "json \<Rightarrow> string \<Rightarrow> py_error + json" where
  "py_getitem (JObj d) key = (case map_of d key of None \<Rightarrow> Inl KeyError | Some v \<Rightarrow> Inr v)"
| "py_getitem x key = Inl TypeError"

text \<open>\<^verbatim>\<open>x[key] = value\<close> for a string \<open>key\<close>: only a dict accepts it.\<close>

fun py_setitem :: "json \<Rightarrow> string \<Rightarrow> json \<Rightarrow> py_error + json" where
  "py_setitem (JObj d) key v = Inr (JObj (AList.update key v d))"
| "py_setitem x key v = Inl TypeError"

text \<open>
  \<^verbatim>\<open>x.get(key, default)\<close>: only a dict has the method; \<^verbatim>\<open>x.get(key)\<close> is the call
  with default \<^verbatim>\<open>None\<close>.
\<close>

fun py_get :: "json \<Rightarrow> string \<Rightarrow> json \<Rightarrow> py_error + json" where
  "py_get (JObj d) key dflt = (case map_of d key of None \<Rightarrow> Inr dflt | Some v \<Rightarrow> Inr v)"
| "py_get x key dflt = Inl AttributeError"

section \<open>The roster importer: normalising one record\<close>

text \<open>
  \<^verbatim>\<open>import_players.process_player_data\<close>. The dict literal \<^verbatim>\<open>defaults\<close>, in its
  insertion order.
\<close>

definition defaults :: "(string \<times> json) list" where
  "defaults =
     [(''team'', JStr ''Unknown''),
      (''role'', JStr ''Unknown''),
      (''region'', JStr ''Unknown''),
      (''active'', JBool True),
      (''year_started'', JInt 2010),
      (''nationality'', JStr ''Unknown''),
      (''image_url'', JNull)]"

text \<open>
  The body of the loop:
  \<^verbatim>\<open>if key not in player or player[key] is None: player[key] = value\<close>.
  The \<^verbatim>\<open>or\<close> evaluates its right operand only when the key is present.
\<close>

definition fill_default :: "json \<Rightarrow> string \<times> json \<Rightarrow> py_error + json" where
  "fill_default player kv =
     py_bind (py_in (fst kv) player) (\<lambda>present.
       if \<not> present then py_setitem player (fst kv) (snd kv)
       else py_bind (py_getitem player (fst kv)) (\<lambda>cur.
         if cur = JNull then py_setitem player (fst kv) (snd kv) else Inr player))"

fun fill_defaults :: "json \<Rightarrow> (string \<times> json) list \<Rightarrow> py_error + json" where
  "fill_defaults player [] = Inr player"
| "fill_defaults player (kv # rest) =
     py_bind (fill_default player kv) (\<lambda>player'. fill_defaults player' rest)"

definition players_process_player_data :: "json \<Rightarrow> py_error + json" where
  "players_process_player_data player = fill_defaults player defaults"

text \<open>A field of an input record that is absent or explicitly null.\<close>

definition absent_or_null :: "(string \<times> json) list \<Rightarrow> string \<Rightarrow> bool" where
  "absent_or_null p k = (map_of p k = None \<or> map_of p k = Some JNull)"

section \<open>The Worlds importer: normalising one record\<close>

subsection \<open>Truth values and equality\<close>

text \<open>
  The truth value Python gives a value in a condition: \<^verbatim>\<open>None\<close>, \<^verbatim>\<open>False\<close>, zero, the
  empty string, the empty list and the empty dict are false, everything else is true
  (\<^verbatim>\<open>nan\<close> and the infinities included).
\<close>

fun py_truthy :: "json \<Rightarrow> bool" where
  "py_truthy JNull = False"
| "py_truthy (JBool b) = b"
| "py_truthy (JInt i) = (i \<noteq> 0)"
| "py_truthy (JFloat r) = (r \<noteq> ''0.0'' \<and> r \<noteq> ''-0.0'')"
| "py_truthy (JStr s) = (s \<noteq> [])"
| "py_truthy (JArr xs) = (xs \<noteq> [])"
| "py_truthy (JObj d) = (d \<noteq> [])"

text \<open>\<^verbatim>\<open>x == s\<close> for a string literal \<open>s\<close>: only an equal string is equal to it.\<close>

fun py_eq_str :: "json \<Rightarrow> string \<Rightarrow> bool" where
  "py_eq_str (JStr t) s = (t = s)"
| "py_eq_str x s = False"

text \<open>\<^verbatim>\<open>isinstance(x, list)\<close>.\<close>

fun is_list :: "json \<Rightarrow> bool" where
  "is_list (JArr xs) = True"
| "is_list x = False"

subsection \<open>Calendar dates\<close>

text \<open>
  \<^verbatim>\<open>datetime.date(year, month, day)\<close>: the proleptic Gregorian calendar, years 1 to
  9999; the constructor raises \<^verbatim>\<open>ValueError\<close> outside of it.
\<close>

datatype date = Date (year: nat) (month: nat) (day: nat)

definition is_leap :: "nat \<Rightarrow> bool" where
  "is_leap y = (y mod 4 = 0 \<and> (y mod 100 \<noteq> 0 \<or> y mod 400 = 0))"

definition days_in_month :: "nat \<Rightarrow> nat \<Rightarrow> nat" where
  "days_in_month y m =
     (if m = 2 then (if is_leap y then 29 else 28)
      else if m = 4 \<or> m = 6 \<or> m = 9 \<or> m = 11 then 30
      else 31)"

definition make_date :: "nat \<Rightarrow> nat \<Rightarrow> nat \<Rightarrow> py_error + date" where
  "make_date y m d =
     (if 1 \<le> y \<and> y \<le> 9999 \<and> 1 \<le> m \<and> m \<le> 12 \<and> 1 \<le> d \<and> d \<le> days_in_month y m
      then Inr (Date y m d)
      else Inl ValueError)"

subsection \<open>\<^verbatim>\<open>datetime.strptime(s, '%Y-%m-%d')\<close>\<close>

text \<open>
  The standard library turns the format into a regular expression, one group per
  directive, and matches it at the start of the text:
  \<^verbatim>\<open>%Y\<close> is \<^verbatim>\<open>\d\d\d\d\<close>,
  \<^verbatim>\<open>%m\<close> is \<^verbatim>\<open>1[0-2]|0[1-9]|[1-9]\<close> and
  \<^verbatim>\<open>%d\<close> is \<^verbatim>\<open>3[0-1]|[1-2]\d|0[1-9]|[1-9]| [1-9]\<close>.
  The alternatives of a group are tried in this order and the first that lets the rest
  of the expression match is taken. A text that does not match, or that goes on after
  the match, is a \<^verbatim>\<open>ValueError\<close>; so is a match that is no date of the calendar.
  A first argument that is not a string is a \<^verbatim>\<open>TypeError\<close>.
\<close>

definition digit_of :: "char \<Rightarrow> nat option" where
  "digit_of c =
     map_of [(CHR ''0'', 0), (CHR ''1'', 1), (CHR ''2'', 2), (CHR ''3'', 3), (CHR ''4'', 4),
             (CHR ''5'', 5), (CHR ''6'', 6), (CHR ''7'', 7), (CHR ''8'', 8), (CHR ''9'', 9)] c"

definition is_digit :: "char \<Rightarrow> bool" where
  "is_digit c = (digit_of c \<noteq> None)"

text \<open>A character class is the list of its characters.\<close>

definition one_of :: "string \<Rightarrow> char \<Rightarrow> bool" where
  "one_of cls c = List.member cls c"

text \<open>
  An alternative of one or of two character classes: the ways (at most one) it can
  match at the start of the text, each with the text matched and the text left.
\<close>

fun alt1 :: "(char \<Rightarrow> bool) \<Rightarrow> string \<Rightarrow> (string \<times> string) list" where
  "alt1 P (a # rest) = (if P a then [([a], rest)] else [])"
| "alt1 P [] = []"

fun alt2 :: "(char \<Rightarrow> bool) \<Rightarrow> (char \<Rightarrow> bool) \<Rightarrow> string \<Rightarrow> (string \<times> string) list" where
  "alt2 P Q (a # b # rest) = (if P a \<and> Q b then [([a, b], rest)] else [])"
| "alt2 P Q s = []"

fun match_Y :: "string \<Rightarrow> (string \<times> string) list" where
  "match_Y (a # b # c # d # rest) =
     (if is_digit a \<and> is_digit b \<and> is_digit c \<and> is_digit d then [([a, b, c, d], rest)] else [])"
| "match_Y s = []"

definition match_m :: "string \<Rightarrow> (string \<times> string) list" where
  "match_m s =
     alt2 (one_of ''1'') (one_of ''012'') s @
     alt2 (one_of ''0'') (one_of ''123456789'') s @
     alt1 (one_of ''123456789'') s"

definition match_d :: "string \<Rightarrow> (string \<times> string) list" where
  "match_d s =
     alt2 (one_of ''3'') (one_of ''01'') s @
     alt2 (one_of ''12'') is_digit s @
     alt2 (one_of ''0'') (one_of ''123456789'') s @
     alt1 (one_of ''123456789'') s @
     alt2 (one_of '' '') (one_of ''123456789'') s"

text \<open>The literal \<^verbatim>\<open>-\<close> of the format.\<close>

fun match_dash :: "string \<Rightarrow> string list" where
  "match_dash (c # rest) = (if c = CHR ''-'' then [rest] else [])"
| "match_dash [] = []"

text \<open>
  All the ways the whole expression matches at the start of the text, in the order a
  backtracking matcher finds them: the groups \<open>Y\<close>, \<open>m\<close>, \<open>d\<close> and the text left.
\<close>

definition match_format :: "string \<Rightarrow> (string \<times> string \<times> string \<times> string) list" where
  "match_format s =
     concat (map (\<lambda>(gY, r1).
       concat (map (\<lambda>r2.
         concat (map (\<lambda>(gm, r3).
           concat (map (\<lambda>r4.
             map (\<lambda>(gd, r5). (gY, gm, gd, r5)) (match_d r4))
           (match_dash r3)))
         (match_m r2)))
       (match_dash r1)))
     (match_Y s))"

text \<open>
  \<^verbatim>\<open>int(group)\<close> on a group of the match: blanks around the digits are dropped (the
  last alternative of \<^verbatim>\<open>%d\<close> starts with one).
\<close>

definition group_int :: "string \<Rightarrow> nat" where
  "group_int g =
     foldl (\<lambda>n c. 10 * n + (case digit_of c of Some v \<Rightarrow> v | None \<Rightarrow> 0)) 0
       (filter is_digit g)"

definition strptime_Ymd :: "string \<Rightarrow> py_error + date" where
  "strptime_Ymd s =
     (case match_format s of
        [] \<Rightarrow> Inl ValueError
      | (gY, gm, gd, left) # others \<Rightarrow>
          if left \<noteq> [] then Inl ValueError
          else make_date (group_int gY) (group_int gm) (group_int gd))"

fun strptime_date :: "json \<Rightarrow> py_error + date" where
  "strptime_date (JStr s) = strptime_Ymd s"
| "strptime_date x = Inl TypeError"

subsection \<open>\<^verbatim>\<open>json.dumps\<close>\<close>

text \<open>
  With the default arguments: items separated by a comma and a blank, keys from values
  by a colon and a blank, and every character outside the printable ASCII range
  escaped.
\<close>

definition hex_digit :: "nat \<Rightarrow> char" where
  "hex_digit n = ''0123456789abcdef'' ! (n mod 16)"

definition escape_char :: "char \<Rightarrow> string" where
  "escape_char c =
     (if c = CHR 0x5C then [CHR 0x5C, CHR 0x5C]
      else if c = CHR 0x22 then [CHR 0x5C, CHR 0x22]
      else if c = CHR 0x08 then [CHR 0x5C, CHR ''b'']
      else if c = CHR 0x0C then [CHR 0x5C, CHR ''f'']
      else if c = CHR 0x0A then [CHR 0x5C, CHR ''n'']
      else if c = CHR 0x0D then [CHR 0x5C, CHR ''r'']
      else if c = CHR 0x09 then [CHR 0x5C, CHR ''t'']
      else if 0x20 \<le> (of_char c :: nat) \<and> (of_char c :: nat) \<le> 0x7E then [c]
      else [CHR 0x5C, CHR ''u'', CHR ''0'', CHR ''0'',
            hex_digit ((of_char c :: nat) div 16), hex_digit (of_char c :: nat)])"

definition encode_str :: "string \<Rightarrow> string" where
  "encode_str s = [CHR 0x22] @ concat (map escape_char s) @ [CHR 0x22]"

fun nat_dec :: "nat \<Rightarrow> string" where
  "nat_dec n =
     (if n < 10 then [''0123456789'' ! n] else nat_dec (n div 10) @ [''0123456789'' ! (n mod 10)])"

declare nat_dec.simps [simp del]

definition int_dec :: "int \<Rightarrow> string" where
  "int_dec i = (if i < 0 then CHR ''-'' # nat_dec (nat (- i)) else nat_dec (nat i))"

definition float_dumps :: "string \<Rightarrow> string" where
  "float_dumps r =
     (if r = ''nan'' then ''NaN''
      else if r = ''inf'' then ''Infinity''
      else if r = ''-inf'' then ''-Infinity''
      else r)"

fun join :: "string \<Rightarrow> string list \<Rightarrow> string" where
  "join sep [] = []"
| "join sep [x] = x"
| "join sep (x # y # ys) = x @ sep @ join sep (y # ys)"

fun json_dumps :: "json \<Rightarrow> string" where
  "json_dumps JNull = ''null''"
| "json_dumps (JBool b) = (if b then ''true'' else ''false'')"
| "json_dumps (JInt i) = int_dec i"
| "json_dumps (JFloat r) = float_dumps r"
| "json_dumps (JStr s) = encode_str s"
| "json_dumps (JArr xs) = ''['' @ join '', '' (map json_dumps xs) @ '']''"
| "json_dumps (JObj d) =
     ''{'' @ join '', '' (map (\<lambda>kv. encode_str (fst kv) @ '': '' @ json_dumps (snd kv)) d) @ ''}''"

subsection \<open>\<^verbatim>\<open>import_worlds_players.process_player_data\<close>\<close>

record processed_player =
  name :: string
  main_name :: json
  all_names :: string
  nationality :: json
  residency :: json
  birthdate :: "date option"
  tournament_role :: json
  team :: json
  appearance :: json
  player_current_role :: json
  is_retired :: bool
  current_team :: json
  current_team_region :: json

text \<open>
  \<^verbatim>\<open>except ValueError\<close> catches \<^verbatim>\<open>ValueError\<close> and its subclasses;
  \<^verbatim>\<open>json.JSONDecodeError\<close> is one.
\<close>

definition is_ValueError :: "py_error \<Rightarrow> bool" where
  "is_ValueError e = (e = ValueError \<or> e = JSONDecodeError)"

text \<open>
  Lines 37 to 42: the birthdate stays \<^verbatim>\<open>None\<close> unless the key is present with a true
  value; then the value is parsed, and only a \<^verbatim>\<open>ValueError\<close> of the parse is
  swallowed.
\<close>

definition convert_birthdate :: "json \<Rightarrow> py_error + date option" where
  "convert_birthdate player_data =
     py_bind (py_in ''birthdate'' player_data) (\<lambda>present.
       if \<not> present then Inr None
       else py_bind (py_getitem player_data ''birthdate'') (\<lambda>raw.
         if \<not> py_truthy raw then Inr None
         else (case strptime_date raw of
                 Inr d \<Rightarrow> Inr (Some d)
               | Inl e \<Rightarrow> if is_ValueError e then Inr None else Inl e)))"

text \<open>Lines 44 to 47.\<close>

definition convert_is_retired :: "json \<Rightarrow> py_error + bool" where
  "convert_is_retired player_data =
     py_bind (py_in ''isRetired'' player_data) (\<lambda>present.
       if \<not> present then Inr False
       else py_bind (py_getitem player_data ''isRetired'') (\<lambda>raw.
         Inr (py_eq_str raw ''1'')))"

text \<open>Lines 49 to 52; the \<^verbatim>\<open>and\<close> reads the value only when the key is present.\<close>

definition convert_all_names :: "json \<Rightarrow> py_error + json" where
  "convert_all_names player_data =
     py_bind (py_in ''allNames'' player_data) (\<lambda>present.
       if \<not> present then Inr (JArr [])
       else py_bind (py_getitem player_data ''allNames'') (\<lambda>raw.
         if is_list raw then Inr raw else Inr (JArr [])))"

text \<open>
  Lines 54 to 71: the dict literal, its values evaluated from top to bottom, each
  \<^verbatim>\<open>.get\<close> a method call that only a dict answers.
\<close>

definition worlds_process_player_data :: "string \<Rightarrow> json \<Rightarrow> py_error + processed_player" where
  "worlds_process_player_data player_key player_data =
     py_bind (convert_birthdate player_data) (\<lambda>v_birthdate.
     py_bind (convert_is_retired player_data) (\<lambda>v_is_retired.
     py_bind (convert_all_names player_data) (\<lambda>v_all_names.
     py_bind (py_get player_data ''mainName'' (JStr player_key)) (\<lambda>v_main_name.
     py_bind (py_get player_data ''nationality'' JNull) (\<lambda>v_nationality.
     py_bind (py_get player_data ''Residency'' JNull) (\<lambda>v_residency.
     py_bind (py_get player_data ''tournament_role'' JNull) (\<lambda>v_tournament_role.
     py_bind (py_get player_data ''team'' JNull) (\<lambda>v_team.
     py_bind (py_get player_data ''appearance'' JNull) (\<lambda>v_appearance.
     py_bind (py_get player_data ''current_role'' JNull) (\<lambda>v_current_role.
     py_bind (py_get player_data ''current_team'' JNull) (\<lambda>v_current_team.
     py_bind (py_get player_data ''current_team_region'' JNull) (\<lambda>v_current_team_region.
       Inr \<lparr> name = player_key,
             main_name = v_main_name,
             all_names = json_dumps v_all_names,
             nationality = v_nationality,
             residency = v_residency,
             birthdate = v_birthdate,
             tournament_role = v_tournament_role,
             team = v_team,
             appearance = v_appearance,
             player_current_role = v_current_role,
             is_retired = v_is_retired,
             current_team = v_current_team,
             current_team_region = v_current_team_region \<rparr>))))))))))))"

text \<open>
  The records on which the conversion of the birthdate raises: the value is there, it
  is true, and it is not a string.
\<close>

fun is_str :: "json \<Rightarrow> bool" where
  "is_str (JStr s) = True"
| "is_str x = False"

definition birthdate_raises :: "(string \<times> json) list \<Rightarrow> bool" where
  "birthdate_raises d =
     (case map_of d ''birthdate'' of
        None \<Rightarrow> False
      | Some raw \<Rightarrow> py_truthy raw \<and> \<not> is_str raw)"

text \<open>\<^verbatim>\<open>d.get(key)\<close> on a dict.\<close>

definition dict_get :: "(string \<times> json) list \<Rightarrow> string \<Rightarrow> json" where
  "dict_get d key = (case map_of d key of None \<Rightarrow> JNull | Some v \<Rightarrow> v)"

subsection \<open>The texts of a date\<close>










section \<open>The database and a run of an importer\<close>

text \<open>
  The committed content of the \<^verbatim>\<open>players\<close> table, seen through the columns one
  importer writes: a map from the value of \<^verbatim>\<open>name\<close>, on which the table has its
  unique constraint (\<^verbatim>\<open>ON CONFLICT (name)\<close>), to the values of the other columns
  of the statement. \<open>reachable\<close> says whether \<^verbatim>\<open>psycopg2.connect\<close> succeeds,
  \<open>table_exists\<close> what the query on \<^verbatim>\<open>information_schema.tables\<close> returns.
\<close>

record ('k, 'c) database =
  reachable :: bool
  table_exists :: bool
  table :: "'k \<rightharpoonup> 'c"

text \<open>
  \<^verbatim>\<open>INSERT ... ON CONFLICT (name) DO UPDATE SET col = EXCLUDED.col, ...\<close> for one
  row, every column of the statement but the key in the \<^verbatim>\<open>SET\<close> list: a new name is
  inserted, an existing one gets all these columns overwritten.
\<close>

fun upsert_row :: "('k \<rightharpoonup> 'c) \<Rightarrow> 'k \<times> 'c \<Rightarrow> ('k \<rightharpoonup> 'c)" where
  "upsert_row t (k, c) = t(k \<mapsto> c)"

text \<open>
  \<^verbatim>\<open>execute_values\<close> of \<^verbatim>\<open>psycopg2.extras\<close>, called without \<^verbatim>\<open>page_size\<close>, cuts
  the rows into pages of 100, the last one shorter, and runs one statement per page.
\<close>

function pages :: "'a list \<Rightarrow> 'a list list" where
  "pages xs = (if xs = [] then [] else take 100 xs # pages (drop 100 xs))"
  by pat_completeness auto
termination
  by (relation "measure length") auto

declare pages.simps [simp del]

text \<open>
  One statement. PostgreSQL refuses a statement with \<^verbatim>\<open>ON CONFLICT DO UPDATE\<close> that
  proposes two rows with the same key (the command cannot affect a row a second time).

  The schema of the table is made by an init-db script that is not among the sources,
  so what it and the driver let through (a row whose values fit the column types and
  constraints) is the parameter \<open>accepts\<close>.
\<close>

definition page_ok :: "('k \<times> 'c \<Rightarrow> bool) \<Rightarrow> ('k \<times> 'c) list \<Rightarrow> bool" where
  "page_ok accepts page = (list_all accepts page \<and> distinct (map fst page))"

definition execute_page ::
    "('k \<times> 'c \<Rightarrow> bool) \<Rightarrow> ('k \<rightharpoonup> 'c) \<Rightarrow> ('k \<times> 'c) list \<Rightarrow> py_error + ('k \<rightharpoonup> 'c)" where
  "execute_page accepts t page =
     (if page_ok accepts page then Inr (foldl upsert_row t page) else Inl DatabaseError)"

fun execute_pages ::
    "('k \<times> 'c \<Rightarrow> bool) \<Rightarrow> ('k \<rightharpoonup> 'c) \<Rightarrow> ('k \<times> 'c) list list \<Rightarrow> py_error + ('k \<rightharpoonup> 'c)" where
  "execute_pages accepts t [] = Inr t"
| "execute_pages accepts t (page # rest) =
     py_bind (execute_page accepts t page) (\<lambda>t'. execute_pages accepts t' rest)"

definition execute_values ::
    "('k \<times> 'c \<Rightarrow> bool) \<Rightarrow> ('k \<rightharpoonup> 'c) \<Rightarrow> ('k \<times> 'c) list \<Rightarrow> py_error + ('k \<rightharpoonup> 'c)" where
  "execute_values accepts t rows = execute_pages accepts t (pages rows)"

text \<open>
  What a run prints, line by line:
  \<^item> \<open>ConnectError\<close>: \<^verbatim>\<open>Error connecting to the database: ...\<close>
  \<^item> \<open>TableMissing\<close>: \<^verbatim>\<open>The 'players' table does not exist. Please run the init-db script first.\<close>
  \<^item> \<open>UnsupportedFormat\<close>: \<^verbatim>\<open>Unsupported JSON format. Please provide a list of players or an object with a 'players' array.\<close>
  \<^item> \<open>NoPlayersFound\<close>: \<^verbatim>\<open>No players found in the JSON file.\<close>
  \<^item> \<open>Imported n\<close>: \<^verbatim>\<open>Successfully imported n players.\<close>
  \<^item> \<open>InvalidJSON\<close>: \<^verbatim>\<open>Error: Invalid JSON file.\<close>
  \<^item> \<open>ImportError e\<close>: \<^verbatim>\<open>Error importing players: e\<close>
\<close>

datatype message =
    ConnectError
  | TableMissing
  | UnsupportedFormat
  | NoPlayersFound
  | Imported nat
  | InvalidJSON
  | ImportError py_error

text \<open>
  How the call ends: it returns, or the process exits with a status (\<^verbatim>\<open>exit(1)\<close> in
  \<^verbatim>\<open>connect_to_db\<close> raises \<^verbatim>\<open>SystemExit\<close>, which \<^verbatim>\<open>except Exception\<close> does not
  catch).
\<close>

datatype outcome = Returned | Exited nat

text \<open>The connection of a run: never made, made and still open, or closed.\<close>

datatype conn_state = NotConnected | Open | Closed

record ('k, 'c) run =
  outcome :: outcome
  printed :: "message list"
  connection :: conn_state
  db :: "('k, 'c) database"

text \<open>
  The end of both \<^verbatim>\<open>import_players\<close> (lines 114 to 145) and
  \<^verbatim>\<open>import_worlds_players\<close> (lines 124 to 162), the same text in both: nothing to
  insert is reported and the connection closed; otherwise the rows are upserted, and
  only when that raised nothing the transaction is committed, the count printed and
  the connection closed. An exception leaves for the handler at the end of the
  function, which prints it and does nothing else.
\<close>

definition insert_and_commit ::
    "('k \<times> 'c \<Rightarrow> bool) \<Rightarrow> ('k, 'c) database \<Rightarrow> ('k \<times> 'c) list \<Rightarrow> ('k, 'c) run" where
  "insert_and_commit accepts db0 players_to_insert =
     (if players_to_insert = []
      then \<lparr>outcome = Returned, printed = [NoPlayersFound], connection = Closed, db = db0\<rparr>
      else (case execute_values accepts (table db0) players_to_insert of
              Inl e \<Rightarrow>
                \<lparr>outcome = Returned, printed = [ImportError e], connection = Open, db = db0\<rparr>
            | Inr t' \<Rightarrow>
                \<lparr>outcome = Returned, printed = [Imported (length players_to_insert)],
                 connection = Closed, db = db0\<lparr>table := t'\<rparr>\<rparr>))"

section \<open>The roster importer: \<^verbatim>\<open>import_players\<close>\<close>

text \<open>
  Lines 81 to 94: which value becomes \<^verbatim>\<open>player_list\<close>; \<open>None\<close> is the last branch,
  the unsupported format.
\<close>

fun resolve_player_list :: "json \<Rightarrow> json option" where
  "resolve_player_list (JArr xs) = Some (JArr xs)"
| "resolve_player_list (JObj d) =
     (case map_of d ''players'' of
        Some v \<Rightarrow> Some v
      | None \<Rightarrow> Some (JArr (map snd d)))"
| "resolve_player_list x = None"

text \<open>
  \<^verbatim>\<open>for player in player_list\<close>: a list gives its elements, a dict its keys, a string
  its characters; nothing else can be iterated.
\<close>

fun py_iter :: "json \<Rightarrow> py_error + json list" where
  "py_iter (JArr xs) = Inr xs"
| "py_iter (JObj d) = Inr (map (\<lambda>kv. JStr (fst kv)) d)"
| "py_iter (JStr s) = Inr (map (\<lambda>c. JStr [c]) s)"
| "py_iter x = Inl TypeError"

text \<open>
  Lines 100 to 110: the row in column order, the name first and the seven other
  columns after it.
\<close>

type_synonym player_columns = "json \<times> json \<times> json \<times> json \<times> json \<times> json \<times> json"

definition player_tuple :: "json \<Rightarrow> py_error + json \<times> player_columns" where
  "player_tuple processed_player =
     py_bind (py_get processed_player ''name'' JNull) (\<lambda>v_name.
     py_bind (py_get processed_player ''team'' JNull) (\<lambda>v_team.
     py_bind (py_get processed_player ''role'' JNull) (\<lambda>v_role.
     py_bind (py_get processed_player ''region'' JNull) (\<lambda>v_region.
     py_bind (py_get processed_player ''active'' JNull) (\<lambda>v_active.
     py_bind (py_get processed_player ''year_started'' JNull) (\<lambda>v_year_started.
     py_bind (py_get processed_player ''nationality'' JNull) (\<lambda>v_nationality.
     py_bind (py_get processed_player ''image_url'' JNull) (\<lambda>v_image_url.
       Inr (v_name, v_team, v_role, v_region, v_active, v_year_started, v_nationality,
            v_image_url)))))))))"

text \<open>Lines 96 to 112: the loop; the first record that raises ends it.\<close>

fun process_players :: "json list \<Rightarrow> py_error + (json \<times> player_columns) list" where
  "process_players [] = Inr []"
| "process_players (player # rest) =
     py_bind (players_process_player_data player) (\<lambda>processed_player.
     py_bind (player_tuple processed_player) (\<lambda>t.
     py_bind (process_players rest) (\<lambda>ts. Inr (t # ts))))"

text \<open>
  Modelled from the spec: the table's \<^verbatim>\<open>name\<close> column is not-null (the init-db script
  is not among the sources), so a row without a name is refused whatever else the
  schema accepts.
\<close>

definition players_accepts ::
    "(json \<times> player_columns \<Rightarrow> bool) \<Rightarrow> json \<times> player_columns \<Rightarrow> bool" where
  "players_accepts accepts row = (fst row \<noteq> JNull \<and> accepts row)"

text \<open>
  Lines 96 to 145, what \<^verbatim>\<open>import_players\<close> does once \<^verbatim>\<open>player_list\<close> is set:
  the loop, then the end shared with the other importer. An exception of the loop
  reaches the handler at the end of the function, which prints it and returns; the
  connection is still open then.
\<close>

definition import_player_list ::
    "(json \<times> player_columns \<Rightarrow> bool) \<Rightarrow> (json, player_columns) database \<Rightarrow> json \<Rightarrow>
     (json, player_columns) run" where
  "import_player_list accepts db0 player_list =
     (case py_bind (py_iter player_list) process_players of
        Inl e \<Rightarrow>
          \<lparr>outcome = Returned, printed = [ImportError e], connection = Open, db = db0\<rparr>
      | Inr players_to_insert \<Rightarrow>
          insert_and_commit (players_accepts accepts) db0 players_to_insert)"

text \<open>
  \<^verbatim>\<open>import_players\<close>. \<open>file\<close> is what opening and parsing the file gave: the parsed
  value or the exception. The handlers at the end print and return; they do not close
  the connection.
\<close>

definition import_players ::
    "(json \<times> player_columns \<Rightarrow> bool) \<Rightarrow> py_error + json \<Rightarrow> (json, player_columns) database \<Rightarrow>
     (json, player_columns) run" where
  "import_players accepts file db0 =
     (case file of
        Inl e \<Rightarrow>
          \<lparr>outcome = Returned,
           printed = [if e = JSONDecodeError then InvalidJSON else ImportError e],
           connection = NotConnected, db = db0\<rparr>
      | Inr data \<Rightarrow>
          if \<not> reachable db0
          then \<lparr>outcome = Exited 1, printed = [ConnectError], connection = NotConnected,
                db = db0\<rparr>
          else if \<not> table_exists db0
          then \<lparr>outcome = Returned, printed = [TableMissing], connection = Closed, db = db0\<rparr>
          else (case resolve_player_list data of
                  None \<Rightarrow>
                    \<lparr>outcome = Returned, printed = [UnsupportedFormat], connection = Closed,
                     db = db0\<rparr>
                | Some player_list \<Rightarrow> import_player_list accepts db0 player_list))"

text \<open>
  The shape resolution as the specification words it, to compare with
  \<open>resolve_player_list\<close>: a sequence is used as it is; a mapping with a key
  \<^verbatim>\<open>players\<close> whose value is a sequence gives that sequence; any other mapping
  gives the sequence of its values; everything else is unsupported.
\<close>

fun is_dict :: "json \<Rightarrow> bool" where
  "is_dict (JObj d) = True"
| "is_dict x = False"

fun spec_resolve_player_list :: "json \<Rightarrow> json option" where
  "spec_resolve_player_list (JArr xs) = Some (JArr xs)"
| "spec_resolve_player_list (JObj d) =
     (if is_list (dict_get d ''players'') then Some (dict_get d ''players'')
      else Some (JArr (map snd d)))"
| "spec_resolve_player_list x = None"

section \<open>The Worlds importer: \<^verbatim>\<open>import_worlds_players\<close>\<close>

text \<open>\<^verbatim>\<open>data.items()\<close>: a method of dicts only.\<close>

fun py_items :: "json \<Rightarrow> py_error + (string \<times> json) list" where
  "py_items (JObj d) = Inr d"
| "py_items x = Inl AttributeError"

text \<open>Lines 105 to 120: the row in column order, the name first.\<close>

type_synonym worlds_columns =
  "json \<times> string \<times> json \<times> json \<times> date option \<times> json \<times> json \<times> json \<times> json \<times> bool \<times> json \<times> json"

definition worlds_tuple :: "processed_player \<Rightarrow> string \<times> worlds_columns" where
  "worlds_tuple processed_player =
     (name processed_player,
      main_name processed_player,
      all_names processed_player,
      nationality processed_player,
      residency processed_player,
      birthdate processed_player,
      tournament_role processed_player,
      team processed_player,
      appearance processed_player,
      player_current_role processed_player,
      is_retired processed_player,
      current_team processed_player,
      current_team_region processed_player)"

text \<open>Lines 101 to 122: the loop over the items of the mapping.\<close>

fun process_worlds :: "(string \<times> json) list \<Rightarrow> py_error + (string \<times> worlds_columns) list" where
  "process_worlds [] = Inr []"
| "process_worlds (item # rest) =
     py_bind (worlds_process_player_data (fst item) (snd item)) (\<lambda>processed_player.
     py_bind (process_worlds rest) (\<lambda>ts. Inr (worlds_tuple processed_player # ts)))"

definition import_worlds_players ::
    "(string \<times> worlds_columns \<Rightarrow> bool) \<Rightarrow> py_error + json \<Rightarrow> (string, worlds_columns) database \<Rightarrow>
     (string, worlds_columns) run" where
  "import_worlds_players accepts file db0 =
     (case file of
        Inl e \<Rightarrow>
          \<lparr>outcome = Returned,
           printed = [if e = JSONDecodeError then InvalidJSON else ImportError e],
           connection = NotConnected, db = db0\<rparr>
      | Inr data \<Rightarrow>
          if \<not> reachable db0
          then \<lparr>outcome = Exited 1, printed = [ConnectError], connection = NotConnected,
                db = db0\<rparr>
          else if \<not> table_exists db0
          then \<lparr>outcome = Returned, printed = [TableMissing], connection = Closed, db = db0\<rparr>
          else (case py_bind (py_items data) process_worlds of
                  Inl e \<Rightarrow>
                    \<lparr>outcome = Returned, printed = [ImportError e], connection = Open,
                     db = db0\<rparr>
                | Inr players_to_insert \<Rightarrow>
                    insert_and_commit accepts db0 players_to_insert))"

section \<open>Properties of the roster normaliser\<close>

lemma fill_default_dict:
  "fill_default (JObj p) (k, v) =
     Inr (JObj (if absent_or_null p k then AList.update k v p else p))"
  by (cases "map_of p k") (auto simp: fill_default_def py_bind_def absent_or_null_def)

lemma fill_defaults_dict:
  "distinct (map fst kvs) \<Longrightarrow>
   \<exists>q. fill_defaults (JObj p) kvs = Inr (JObj q) \<and>
     (\<forall>k. map_of q k =
        (case map_of kvs k of
           None \<Rightarrow> map_of p k
         | Some d \<Rightarrow> if absent_or_null p k then Some d else map_of p k))"
proof (induction kvs arbitrary: p)
  case Nil
  then show ?case by simp
next
  case (Cons kv kvs)
  obtain k v where kv: "kv = (k, v)" by (cases kv)
  define p' where "p' = (if absent_or_null p k then AList.update k v p else p)"
  from Cons.prems have fresh: "map_of kvs k = None" and "distinct (map fst kvs)"
    by (auto simp: kv map_of_eq_None_iff)
  with Cons.IH [of p'] obtain q where
    q: "fill_defaults (JObj p') kvs = Inr (JObj q)" and
    look: "\<And>x. map_of q x =
        (case map_of kvs x of
           None \<Rightarrow> map_of p' x
         | Some d \<Rightarrow> if absent_or_null p' x then Some d else map_of p' x)"
    by blast
  have run: "fill_defaults (JObj p) (kv # kvs) = Inr (JObj q)"
    using q by (simp add: kv fill_default_dict py_bind_def p'_def)
  have same: "map_of p' x = map_of p x" if "x \<noteq> k" for x
    using that by (simp add: p'_def update_conv')
  have filled: "map_of p' k = (if absent_or_null p k then Some v else map_of p k)"
    by (simp add: p'_def update_conv')
  have "map_of q x =
        (case map_of (kv # kvs) x of
           None \<Rightarrow> map_of p x
         | Some d \<Rightarrow> if absent_or_null p x then Some d else map_of p x)" for x
  proof (cases "x = k")
    case True
    show ?thesis
      using True look [of k] filled fresh by (simp add: kv)
  next
    case False
    then show ?thesis
      using look [of x] same [of x]
      by (simp add: kv absent_or_null_def split: option.splits)
  qed
  with run show ?case by blast
qed

text \<open>
  Claim C1. For every input record (a dict \<open>p\<close>) the roster normaliser returns a
  record, and in it each of the seven optional fields holds its documented default
  when the input left the field out or gave it as null (\<open>Unknown\<close> for team, role,
  region and nationality, true for active, 2010 for year\_started, null for
  image\_url), and the input's own value otherwise; an explicit null and an absent key
  are not told apart. Every other field of the record is left as it was.
\<close>

theorem players_defaults_filled:
  "\<exists>q. players_process_player_data (JObj p) = Inr (JObj q) \<and>
     (\<forall>k \<in> {''team'', ''role'', ''region'', ''nationality''}.
        map_of q k = (if absent_or_null p k then Some (JStr ''Unknown'') else map_of p k)) \<and>
     map_of q ''active'' =
       (if absent_or_null p ''active'' then Some (JBool True) else map_of p ''active'') \<and>
     map_of q ''year_started'' =
       (if absent_or_null p ''year_started'' then Some (JInt 2010) else map_of p ''year_started'') \<and>
     map_of q ''image_url'' =
       (if absent_or_null p ''image_url'' then Some JNull else map_of p ''image_url'') \<and>
     (\<forall>k. k \<notin> {''team'', ''role'', ''region'', ''nationality'', ''active'', ''year_started'',
                ''image_url''} \<longrightarrow> map_of q k = map_of p k)"
proof -
  have "distinct (map fst defaults)"
    by (simp add: defaults_def)
  from fill_defaults_dict [OF this, of p] obtain q where
    run: "fill_defaults (JObj p) defaults = Inr (JObj q)" and
    look: "\<And>k. map_of q k =
        (case map_of defaults k of
           None \<Rightarrow> map_of p k
         | Some d \<Rightarrow> if absent_or_null p k then Some d else map_of p k)"
    by blast
  have strings: "\<forall>k \<in> {''team'', ''role'', ''region'', ''nationality''}.
        map_of q k = (if absent_or_null p k then Some (JStr ''Unknown'') else map_of p k)"
    by (simp add: look defaults_def)
  have active: "map_of q ''active'' =
       (if absent_or_null p ''active'' then Some (JBool True) else map_of p ''active'')"
    by (simp add: look defaults_def)
  have year_started: "map_of q ''year_started'' =
       (if absent_or_null p ''year_started'' then Some (JInt 2010) else map_of p ''year_started'')"
    by (simp add: look defaults_def)
  have image_url: "map_of q ''image_url'' =
       (if absent_or_null p ''image_url'' then Some JNull else map_of p ''image_url'')"
    by (simp add: look defaults_def)
  have others: "\<forall>k. k \<notin> {''team'', ''role'', ''region'', ''nationality'', ''active'',
                ''year_started'', ''image_url''} \<longrightarrow> map_of q k = map_of p k"
    by (simp add: look defaults_def)
  from run strings active year_started image_url others show ?thesis
    unfolding players_process_player_data_def by blast
qed

text \<open>
  The theorem at the record \<^verbatim>\<open>{"name": "Faker", "team": null, "active": false}\<close>: the
  null team and the absent role are both filled, the given active flag is kept.
\<close>

theorem players_defaults_filled_witness:
  "\<exists>q. players_process_player_data
          (JObj [(''name'', JStr ''Faker''), (''team'', JNull), (''active'', JBool False)]) =
        Inr (JObj q) \<and>
      map_of q ''team'' = Some (JStr ''Unknown'') \<and>
      map_of q ''role'' = Some (JStr ''Unknown'') \<and>
      map_of q ''active'' = Some (JBool False) \<and>
      map_of q ''year_started'' = Some (JInt 2010) \<and>
      map_of q ''image_url'' = Some JNull \<and>
      map_of q ''name'' = Some (JStr ''Faker'')"
proof -
  let ?p = "[(''name'', JStr ''Faker''), (''team'', JNull), (''active'', JBool False)]"
  from players_defaults_filled [of ?p] obtain q where
    run: "players_process_player_data (JObj ?p) = Inr (JObj q)" and
    strings: "\<forall>k \<in> {''team'', ''role'', ''region'', ''nationality''}.
        map_of q k = (if absent_or_null ?p k then Some (JStr ''Unknown'') else map_of ?p k)" and
    active: "map_of q ''active'' =
       (if absent_or_null ?p ''active'' then Some (JBool True) else map_of ?p ''active'')" and
    year_started: "map_of q ''year_started'' =
       (if absent_or_null ?p ''year_started'' then Some (JInt 2010)
        else map_of ?p ''year_started'')" and
    image_url: "map_of q ''image_url'' =
       (if absent_or_null ?p ''image_url'' then Some JNull else map_of ?p ''image_url'')" and
    others: "\<forall>k. k \<notin> {''team'', ''role'', ''region'', ''nationality'', ''active'',
                ''year_started'', ''image_url''} \<longrightarrow> map_of q k = map_of ?p k"
    by blast
  have "map_of q ''team'' = Some (JStr ''Unknown'')"
    using strings by (simp add: absent_or_null_def)
  moreover have "map_of q ''role'' = Some (JStr ''Unknown'')"
    using strings by (simp add: absent_or_null_def)
  moreover have "map_of q ''active'' = Some (JBool False)"
    using active by (simp add: absent_or_null_def)
  moreover have "map_of q ''year_started'' = Some (JInt 2010)"
    using year_started by (simp add: absent_or_null_def)
  moreover have "map_of q ''image_url'' = Some JNull"
    using image_url by (simp add: absent_or_null_def)
  moreover have "map_of q ''name'' = Some (JStr ''Faker'')"
    using others [rule_format, of "''name''"] by simp
  ultimately show ?thesis
    using run by blast
qed

section \<open>Properties of the Worlds normaliser\<close>

lemma py_eq_str_iff: "py_eq_str x s \<longleftrightarrow> x = JStr s"
  by (cases x) auto

lemma is_list_iff: "is_list x \<longleftrightarrow> (\<exists>xs. x = JArr xs)"
  by (cases x) auto


lemma make_date_error: "make_date y m d = Inl e \<Longrightarrow> e = ValueError"
  by (simp add: make_date_def split: if_splits)

lemma strptime_Ymd_error: "strptime_Ymd s = Inl e \<Longrightarrow> e = ValueError"
  by (auto simp: strptime_Ymd_def split: list.splits if_splits dest: make_date_error)

lemma strptime_date_str: "is_str raw \<Longrightarrow> strptime_date raw = Inl e \<Longrightarrow> is_ValueError e"
  by (cases raw) (auto simp: is_ValueError_def dest: strptime_Ymd_error)

lemma strptime_date_other: "\<not> is_str raw \<Longrightarrow> strptime_date raw = Inl TypeError"
  by (cases raw) auto

text \<open>The three conversions on a dict.\<close>

lemma convert_birthdate_dict:
  "convert_birthdate (JObj d) =
     (if birthdate_raises d then Inl TypeError
      else Inr (case map_of d ''birthdate'' of
                  None \<Rightarrow> None
                | Some raw \<Rightarrow>
                    if py_truthy raw
                    then (case strptime_date raw of Inr dt \<Rightarrow> Some dt | Inl e \<Rightarrow> None)
                    else None))"
proof (cases "map_of d ''birthdate''")
  case None
  then show ?thesis
    by (simp add: convert_birthdate_def birthdate_raises_def py_bind_def)
next
  case (Some raw)
  show ?thesis
  proof (cases "py_truthy raw")
    case False
    with Some show ?thesis
      by (simp add: convert_birthdate_def birthdate_raises_def py_bind_def)
  next
    case True
    show ?thesis
    proof (cases "is_str raw")
      case str: True
      with Some True show ?thesis
        by (auto simp: convert_birthdate_def birthdate_raises_def py_bind_def
            split: sum.splits dest: strptime_date_str)
    next
      case other: False
      with Some True strptime_date_other [OF other] show ?thesis
        by (simp add: convert_birthdate_def birthdate_raises_def py_bind_def is_ValueError_def)
    qed
  qed
qed

lemma convert_is_retired_dict:
  "convert_is_retired (JObj d) = Inr (map_of d ''isRetired'' = Some (JStr ''1''))"
  by (cases "map_of d ''isRetired''")
     (auto simp: convert_is_retired_def py_bind_def py_eq_str_iff)

lemma convert_all_names_dict:
  "convert_all_names (JObj d) =
     Inr (case map_of d ''allNames'' of
            None \<Rightarrow> JArr []
          | Some raw \<Rightarrow> if is_list raw then raw else JArr [])"
  by (cases "map_of d ''allNames''") (auto simp: convert_all_names_def py_bind_def)

lemma py_get_dict: "py_get (JObj d) key JNull = Inr (dict_get d key)"
  by (simp add: dict_get_def split: option.splits)

text \<open>The whole normaliser on a dict: it raises on the birthdate or returns this record.\<close>

lemma worlds_process_player_data_dict:
  "worlds_process_player_data player_key (JObj d) =
     (if birthdate_raises d then Inl TypeError
      else Inr \<lparr> name = player_key,
                 main_name = (case map_of d ''mainName'' of None \<Rightarrow> JStr player_key | Some v \<Rightarrow> v),
                 all_names =
                   json_dumps (case map_of d ''allNames'' of
                                 None \<Rightarrow> JArr []
                               | Some raw \<Rightarrow> if is_list raw then raw else JArr []),
                 nationality = dict_get d ''nationality'',
                 residency = dict_get d ''Residency'',
                 birthdate =
                   (case map_of d ''birthdate'' of
                      None \<Rightarrow> None
                    | Some raw \<Rightarrow>
                        if py_truthy raw
                        then (case strptime_date raw of Inr dt \<Rightarrow> Some dt | Inl e \<Rightarrow> None)
                        else None),
                 tournament_role = dict_get d ''tournament_role'',
                 team = dict_get d ''team'',
                 appearance = dict_get d ''appearance'',
                 player_current_role = dict_get d ''current_role'',
                 is_retired = (map_of d ''isRetired'' = Some (JStr ''1'')),
                 current_team = dict_get d ''current_team'',
                 current_team_region = dict_get d ''current_team_region'' \<rparr>)"
proof -
  have main: "py_get (JObj d) ''mainName'' (JStr player_key) =
      Inr (case map_of d ''mainName'' of None \<Rightarrow> JStr player_key | Some v \<Rightarrow> v)"
    by (simp split: option.splits)
  show ?thesis
    unfolding worlds_process_player_data_def convert_birthdate_dict convert_is_retired_dict
      convert_all_names_dict py_get_dict main
    by (simp add: py_bind_def)
qed

text \<open>
  Claim C6. For every input record of the Worlds importer (a dict \<open>d\<close> under the key
  \<open>key\<close>) the normalised \<open>is_retired\<close> is true exactly when the record's \<open>isRetired\<close>
  is the string \<open>1\<close>: an absent key, the number 1 and every other value give false.
  The normalised record exists unless the conversion of the birthdate raises.
\<close>

theorem worlds_is_retired_iff:
  "(\<forall>r. worlds_process_player_data key (JObj d) = Inr r \<longrightarrow>
        (is_retired r \<longleftrightarrow> map_of d ''isRetired'' = Some (JStr ''1''))) \<and>
   (\<not> birthdate_raises d \<longrightarrow> (\<exists>r. worlds_process_player_data key (JObj d) = Inr r))"
  by (auto simp: worlds_process_player_data_dict split: if_splits)

text \<open>
  The theorem at \<^verbatim>\<open>{"isRetired": "1"}\<close>, at \<^verbatim>\<open>{"isRetired": 1}\<close>, at
  \<^verbatim>\<open>{"isRetired": true}\<close> and at the empty record.
\<close>

theorem worlds_is_retired_iff_witness:
  "(\<exists>r. worlds_process_player_data ''p1'' (JObj [(''isRetired'', JStr ''1'')]) = Inr r \<and>
        is_retired r) \<and>
   (\<exists>r. worlds_process_player_data ''p1'' (JObj [(''isRetired'', JInt 1)]) = Inr r \<and>
        \<not> is_retired r) \<and>
   (\<exists>r. worlds_process_player_data ''p1'' (JObj [(''isRetired'', JBool True)]) = Inr r \<and>
        \<not> is_retired r) \<and>
   (\<exists>r. worlds_process_player_data ''p1'' (JObj []) = Inr r \<and> \<not> is_retired r)"
  using worlds_is_retired_iff [of "''p1''" "[(''isRetired'', JStr ''1'')]"]
    worlds_is_retired_iff [of "''p1''" "[(''isRetired'', JInt 1)]"]
    worlds_is_retired_iff [of "''p1''" "[(''isRetired'', JBool True)]"]
    worlds_is_retired_iff [of "''p1''" "[]"]
  by (simp add: birthdate_raises_def) blast

text \<open>
  Claim C7. For every input record of the Worlds importer the normalised \<open>all_names\<close>
  is the JSON text of the record's \<open>allNames\<close> when that is a list, and the JSON text
  of the empty list, \<open>[]\<close>, when the key is absent or holds anything else (null
  included).
\<close>

theorem worlds_all_names_encoded:
  "(\<forall>r. worlds_process_player_data key (JObj d) = Inr r \<longrightarrow>
        all_names r =
          (case map_of d ''allNames'' of
             None \<Rightarrow> ''[]''
           | Some raw \<Rightarrow> if is_list raw then json_dumps raw else ''[]'')) \<and>
   (\<not> birthdate_raises d \<longrightarrow> (\<exists>r. worlds_process_player_data key (JObj d) = Inr r))"
  by (auto simp: worlds_process_player_data_dict split: if_splits option.splits)

text \<open>
  The theorem at \<^verbatim>\<open>{"allNames": ["A", "B"]}\<close>, whose text is \<^verbatim>\<open>["A", "B"]\<close>, at
  \<^verbatim>\<open>{"allNames": null}\<close>, at \<^verbatim>\<open>{"allNames": "A"}\<close> and at the empty record.
\<close>

theorem worlds_all_names_encoded_witness:
  "(\<exists>r. worlds_process_player_data ''p1'' (JObj [(''allNames'', JArr [JStr ''A'', JStr ''B''])]) =
          Inr r \<and>
        all_names r =
          [CHR ''['', CHR 0x22, CHR ''A'', CHR 0x22, CHR '','', CHR '' '',
           CHR 0x22, CHR ''B'', CHR 0x22, CHR '']'']) \<and>
   (\<exists>r. worlds_process_player_data ''p1'' (JObj [(''allNames'', JNull)]) = Inr r \<and>
        all_names r = ''[]'') \<and>
   (\<exists>r. worlds_process_player_data ''p1'' (JObj [(''allNames'', JStr ''A'')]) = Inr r \<and>
        all_names r = ''[]'') \<and>
   (\<exists>r. worlds_process_player_data ''p1'' (JObj []) = Inr r \<and> all_names r = ''[]'')"
  using worlds_all_names_encoded [of "''p1''" "[(''allNames'', JArr [JStr ''A'', JStr ''B''])]"]
    worlds_all_names_encoded [of "''p1''" "[(''allNames'', JNull)]"]
    worlds_all_names_encoded [of "''p1''" "[(''allNames'', JStr ''A'')]"]
    worlds_all_names_encoded [of "''p1''" "[]"]
  by (simp add: birthdate_raises_def encode_str_def escape_char_def) blast

text \<open>
  Claim C8. For every entry of the input mapping of the Worlds importer, a key and a
  dict, the normalised \<open>name\<close> (and with it the first column of the row) is the key,
  whatever the dict holds under \<open>name\<close>, and \<open>main_name\<close> is the dict's \<open>mainName\<close>
  when that key is present and the mapping key when it is absent.
\<close>

theorem worlds_name_is_key:
  "(\<forall>r. worlds_process_player_data key (JObj d) = Inr r \<longrightarrow>
        name r = key \<and> fst (worlds_tuple r) = key \<and>
        main_name r = (case map_of d ''mainName'' of None \<Rightarrow> JStr key | Some v \<Rightarrow> v)) \<and>
   (\<not> birthdate_raises d \<longrightarrow> (\<exists>r. worlds_process_player_data key (JObj d) = Inr r))"
  by (auto simp: worlds_process_player_data_dict worlds_tuple_def split: if_splits)

text \<open>
  The theorem at the entry \<^verbatim>\<open>"p1": {"name": "other"}\<close> and at the entry
  \<^verbatim>\<open>"p1": {"name": "other", "mainName": "Main"}\<close>.
\<close>

theorem worlds_name_is_key_witness:
  "(\<exists>r. worlds_process_player_data ''p1'' (JObj [(''name'', JStr ''other'')]) = Inr r \<and>
        name r = ''p1'' \<and> fst (worlds_tuple r) = ''p1'' \<and> main_name r = JStr ''p1'') \<and>
   (\<exists>r. worlds_process_player_data ''p1''
          (JObj [(''name'', JStr ''other''), (''mainName'', JStr ''Main'')]) = Inr r \<and>
        name r = ''p1'' \<and> fst (worlds_tuple r) = ''p1'' \<and> main_name r = JStr ''Main'')"
  using worlds_name_is_key [of "''p1''" "[(''name'', JStr ''other'')]"]
    worlds_name_is_key [of "''p1''" "[(''name'', JStr ''other''), (''mainName'', JStr ''Main'')]"]
  by (simp add: birthdate_raises_def) blast

text \<open>
  Claim C10. When the record's \<open>mainName\<close> is present and null, the normalised
  \<open>main_name\<close> is null; the mapping key is the default only for a record without the
  key \<open>mainName\<close>. (The roster importer treats a null like an absent key; this one
  does not.)
\<close>

theorem worlds_main_name_null_kept:
  "(\<forall>r. worlds_process_player_data key (JObj d) = Inr r \<longrightarrow>
        (map_of d ''mainName'' = Some JNull \<longrightarrow> main_name r = JNull) \<and>
        (map_of d ''mainName'' = None \<longrightarrow> main_name r = JStr key)) \<and>
   (\<not> birthdate_raises d \<longrightarrow> (\<exists>r. worlds_process_player_data key (JObj d) = Inr r))"
  by (auto simp: worlds_process_player_data_dict split: if_splits)

text \<open>The theorem at the entries \<^verbatim>\<open>"p1": {"mainName": null}\<close> and \<^verbatim>\<open>"p1": {}\<close>.\<close>

theorem worlds_main_name_null_kept_witness:
  "(\<exists>r. worlds_process_player_data ''p1'' (JObj [(''mainName'', JNull)]) = Inr r \<and>
        main_name r = JNull) \<and>
   (\<exists>r. worlds_process_player_data ''p1'' (JObj []) = Inr r \<and> main_name r = JStr ''p1'')"
  using worlds_main_name_null_kept [of "''p1''" "[(''mainName'', JNull)]"]
    worlds_main_name_null_kept [of "''p1''" "[]"]
  by (simp add: birthdate_raises_def) blast

section \<open>Properties of the batched upsert\<close>

lemma pages_short: "xs \<noteq> [] \<Longrightarrow> length xs \<le> 100 \<Longrightarrow> pages xs = [xs]"
  by (simp add: pages.simps [of xs] pages.simps [of "[]"])

lemma concat_pages: "concat (pages xs) = xs"
proof (induction xs rule: pages.induct)
  case (1 xs)
  then show ?case
    by (cases "xs = []") (simp_all add: pages.simps [of xs] pages.simps [of "[]"])
qed

text \<open>A row list as a map: the last row of a name is the one that stays.\<close>

lemma foldl_upsert_row: "foldl upsert_row t rows = t ++ map_of (rev rows)"
proof (induction rows arbitrary: t)
  case Nil
  then show ?case by simp
next
  case (Cons row rows)
  obtain k c where row: "row = (k, c)" by (cases row)
  have "foldl upsert_row t (row # rows) = foldl upsert_row (t(k \<mapsto> c)) rows"
    by (simp add: row)
  also have "\<dots> = t(k \<mapsto> c) ++ map_of (rev rows)"
    by (rule Cons.IH)
  also have "\<dots> = t ++ map_of (rev (row # rows))"
    by (rule ext) (simp add: row map_add_def split: option.splits)
  finally show ?case .
qed

lemma upsert_twice:
  "foldl upsert_row (foldl upsert_row t rows) rows = foldl upsert_row t rows"
  unfolding foldl_upsert_row
  by (rule ext) (simp add: map_add_def split: option.splits)

text \<open>
  The statements of one call either all pass, and then the table is the old one with
  every row written over it in order, or one of them fails; which of the two does not
  depend on the table.
\<close>

lemma execute_pages_eq:
  "execute_pages accepts t ps =
     (if list_all (page_ok accepts) ps then Inr (foldl upsert_row t (concat ps))
      else Inl DatabaseError)"
  by (induction ps arbitrary: t) (auto simp: execute_page_def py_bind_def)

lemma execute_values_eq:
  "execute_values accepts t rows =
     (if list_all (page_ok accepts) (pages rows) then Inr (foldl upsert_row t rows)
      else Inl DatabaseError)"
  by (simp add: execute_values_def execute_pages_eq concat_pages)

lemma execute_values_twice:
  "execute_values accepts t rows = Inr t' \<Longrightarrow> execute_values accepts t' rows = Inr t'"
  by (auto simp: execute_values_eq upsert_twice split: if_splits)

lemma execute_values_error:
  "execute_values accepts t rows = Inl e \<Longrightarrow> execute_values accepts t' rows = Inl e"
  by (auto simp: execute_values_eq split: if_splits)

section \<open>Properties of the two importers\<close>

lemma insert_and_commit_flags:
  "reachable (db (insert_and_commit accepts db0 rows)) = reachable db0"
  "table_exists (db (insert_and_commit accepts db0 rows)) = table_exists db0"
  by (simp_all add: insert_and_commit_def split: sum.splits)

lemma insert_and_commit_twice:
  "db (insert_and_commit accepts (db (insert_and_commit accepts db0 rows)) rows) =
   db (insert_and_commit accepts db0 rows)"
proof (cases "execute_values accepts (table db0) rows")
  case (Inl e)
  then show ?thesis
    by (simp add: insert_and_commit_def)
next
  case (Inr t')
  from execute_values_twice [OF this] Inr show ?thesis
    by (simp add: insert_and_commit_def)
qed

lemma insert_and_commit_raises:
  "rows \<noteq> [] \<Longrightarrow> execute_values accepts (table db0) rows = Inl e \<Longrightarrow>
   insert_and_commit accepts db0 rows =
     \<lparr>outcome = Returned, printed = [ImportError e], connection = Open, db = db0\<rparr>"
  by (simp add: insert_and_commit_def)

lemma import_player_list_flags:
  "reachable (db (import_player_list accepts db0 pl)) = reachable db0"
  "table_exists (db (import_player_list accepts db0 pl)) = table_exists db0"
  by (simp_all add: import_player_list_def insert_and_commit_flags split: sum.splits)

lemma import_player_list_twice:
  "db (import_player_list accepts (db (import_player_list accepts db0 pl)) pl) =
   db (import_player_list accepts db0 pl)"
  by (simp add: import_player_list_def insert_and_commit_twice split: sum.splits)

lemma import_players_twice:
  "db (import_players accepts file (db (import_players accepts file db0))) =
   db (import_players accepts file db0)"
proof (cases "file")
  case (Inl e)
  then show ?thesis
    by (simp add: import_players_def)
next
  case (Inr data)
  show ?thesis
  proof (cases "reachable db0 \<and> table_exists db0")
    case False
    with Inr show ?thesis
      by (auto simp: import_players_def)
  next
    case True
    with Inr show ?thesis
      by (cases "resolve_player_list data")
         (simp_all add: import_players_def import_player_list_flags import_player_list_twice)
  qed
qed

lemma import_worlds_players_twice:
  "db (import_worlds_players accepts file (db (import_worlds_players accepts file db0))) =
   db (import_worlds_players accepts file db0)"
proof (cases "file")
  case (Inl e)
  then show ?thesis
    by (simp add: import_worlds_players_def)
next
  case (Inr data)
  show ?thesis
  proof (cases "reachable db0 \<and> table_exists db0")
    case False
    with Inr show ?thesis
      by (auto simp: import_worlds_players_def)
  next
    case True
    with Inr show ?thesis
      by (cases "py_bind (py_items data) process_worlds")
         (simp_all add: import_worlds_players_def insert_and_commit_flags
            insert_and_commit_twice)
  qed
qed

lemma process_players_empty: "process_players xs = Inr [] \<longleftrightarrow> xs = []"
  by (cases xs) (auto simp: py_bind_def split: sum.splits)

text \<open>
  Claim C9. Running an importer again on the same file and the same database changes
  nothing: the table after the second run is the table after the first. This holds
  for the batched upsert itself (a call that passed passes again and gives the same
  table) and for whole runs of either importer, whatever the file holds.
\<close>

theorem rerun_changes_nothing:
  "(\<forall>t'. execute_values accepts t rows = Inr t' \<longrightarrow> execute_values accepts t' rows = Inr t') \<and>
   db (import_players p_accepts p_file (db (import_players p_accepts p_file p_db))) =
     db (import_players p_accepts p_file p_db) \<and>
   db (import_worlds_players w_accepts w_file (db (import_worlds_players w_accepts w_file w_db))) =
     db (import_worlds_players w_accepts w_file w_db)"
  by (simp add: execute_values_twice import_players_twice import_worlds_players_twice)

text \<open>
  The theorem at the file \<^verbatim>\<open>[{"name": "Faker"}]\<close>, an empty table and a schema that
  accepts every row: the second run leaves the one row the first run wrote.
\<close>

theorem rerun_changes_nothing_witness:
  "db (import_players top (Inr (JArr [JObj [(''name'', JStr ''Faker'')]]))
        (db (import_players top (Inr (JArr [JObj [(''name'', JStr ''Faker'')]]))
              \<lparr>reachable = True, table_exists = True, table = Map.empty\<rparr>))) =
   \<lparr>reachable = True, table_exists = True,
    table = [JStr ''Faker'' \<mapsto>
      (JStr ''Unknown'', JStr ''Unknown'', JStr ''Unknown'', JBool True, JInt 2010,
       JStr ''Unknown'', JNull)]\<rparr>"
proof -
  let ?file = "Inr (JArr [JObj [(''name'', JStr ''Faker'')]]) :: py_error + json"
  let ?db = "\<lparr>reachable = True, table_exists = True,
                table = (Map.empty :: json \<rightharpoonup> player_columns)\<rparr>"
  have once: "db (import_players top ?file ?db) =
      \<lparr>reachable = True, table_exists = True,
       table = [JStr ''Faker'' \<mapsto>
         (JStr ''Unknown'', JStr ''Unknown'', JStr ''Unknown'', JBool True, JInt 2010,
          JStr ''Unknown'', JNull)]\<rparr>"
    by (simp add: import_players_def import_player_list_def py_bind_def
        players_process_player_data_def defaults_def fill_default_def player_tuple_def
        insert_and_commit_def execute_values_def pages_short execute_page_def page_ok_def
        players_accepts_def)
  from rerun_changes_nothing [where p_accepts = top and p_file = ?file and p_db = ?db]
  have "db (import_players top ?file (db (import_players top ?file ?db))) =
      db (import_players top ?file ?db)"
    by blast
  with once show ?thesis
    by simp
qed

lemma py_items_other: "\<not> is_dict data \<Longrightarrow> py_items data = Inl AttributeError"
  by (cases data) auto

text \<open>
  Claim C5. Once the connection is made, each early way out of an importer prints
  one line, leaves the table as it was and returns (it neither raises nor exits):
  the table \<open>players\<close> is missing; the shape of the input is not recognised; no record
  is left after the shape is resolved. For the roster importer an unrecognised shape
  is a value that is neither a list nor a dict, and the line is the one on the
  unsupported format. The Worlds importer has no such branch: a value that is not a
  dict makes \<^verbatim>\<open>data.items()\<close> raise, and the line is the handler's.
\<close>

theorem early_aborts_write_nothing:
  assumes "reachable p_db" and "reachable w_db"
  shows
    "(\<not> table_exists p_db \<longrightarrow>
        import_players p_accepts (Inr p_data) p_db =
          \<lparr>outcome = Returned, printed = [TableMissing], connection = Closed, db = p_db\<rparr>) \<and>
     (table_exists p_db \<and> \<not> is_list p_data \<and> \<not> is_dict p_data \<longrightarrow>
        import_players p_accepts (Inr p_data) p_db =
          \<lparr>outcome = Returned, printed = [UnsupportedFormat], connection = Closed,
           db = p_db\<rparr>) \<and>
     (table_exists p_db \<and>
      (\<exists>pl. resolve_player_list p_data = Some pl \<and> py_iter pl = Inr []) \<longrightarrow>
        import_players p_accepts (Inr p_data) p_db =
          \<lparr>outcome = Returned, printed = [NoPlayersFound], connection = Closed, db = p_db\<rparr>) \<and>
     (\<not> table_exists w_db \<longrightarrow>
        import_worlds_players w_accepts (Inr w_data) w_db =
          \<lparr>outcome = Returned, printed = [TableMissing], connection = Closed, db = w_db\<rparr>) \<and>
     (table_exists w_db \<and> \<not> is_dict w_data \<longrightarrow>
        import_worlds_players w_accepts (Inr w_data) w_db =
          \<lparr>outcome = Returned, printed = [ImportError AttributeError], connection = Open,
           db = w_db\<rparr>) \<and>
     (table_exists w_db \<and> w_data = JObj [] \<longrightarrow>
        import_worlds_players w_accepts (Inr w_data) w_db =
          \<lparr>outcome = Returned, printed = [NoPlayersFound], connection = Closed, db = w_db\<rparr>)"
proof -
  have missing: "\<not> table_exists p_db \<longrightarrow>
        import_players p_accepts (Inr p_data) p_db =
          \<lparr>outcome = Returned, printed = [TableMissing], connection = Closed, db = p_db\<rparr>"
    using assms by (simp add: import_players_def)
  have shape: "table_exists p_db \<and> \<not> is_list p_data \<and> \<not> is_dict p_data \<longrightarrow>
        import_players p_accepts (Inr p_data) p_db =
          \<lparr>outcome = Returned, printed = [UnsupportedFormat], connection = Closed,
           db = p_db\<rparr>"
    using assms by (cases p_data) (simp_all add: import_players_def)
  have empty: "table_exists p_db \<and>
      (\<exists>pl. resolve_player_list p_data = Some pl \<and> py_iter pl = Inr []) \<longrightarrow>
        import_players p_accepts (Inr p_data) p_db =
          \<lparr>outcome = Returned, printed = [NoPlayersFound], connection = Closed, db = p_db\<rparr>"
    using assms
    by (auto simp: import_players_def import_player_list_def py_bind_def insert_and_commit_def)
  have w_missing: "\<not> table_exists w_db \<longrightarrow>
        import_worlds_players w_accepts (Inr w_data) w_db =
          \<lparr>outcome = Returned, printed = [TableMissing], connection = Closed, db = w_db\<rparr>"
    using assms by (simp add: import_worlds_players_def)
  have w_shape: "table_exists w_db \<and> \<not> is_dict w_data \<longrightarrow>
        import_worlds_players w_accepts (Inr w_data) w_db =
          \<lparr>outcome = Returned, printed = [ImportError AttributeError], connection = Open,
           db = w_db\<rparr>"
    using assms by (auto simp: import_worlds_players_def py_bind_def py_items_other)
  have w_empty: "table_exists w_db \<and> w_data = JObj [] \<longrightarrow>
        import_worlds_players w_accepts (Inr w_data) w_db =
          \<lparr>outcome = Returned, printed = [NoPlayersFound], connection = Closed, db = w_db\<rparr>"
    using assms by (simp add: import_worlds_players_def py_bind_def insert_and_commit_def)
  from missing shape empty w_missing w_shape w_empty show ?thesis
    by blast
qed

text \<open>
  The theorem at a database without the table, at the input \<^verbatim>\<open>4\<close>, at the input
  \<^verbatim>\<open>{"players": []}\<close> and, for the Worlds importer, at the inputs \<^verbatim>\<open>{}\<close> and
  \<^verbatim>\<open>[]\<close>.
\<close>

theorem early_aborts_write_nothing_witness:
  "import_players top (Inr (JArr [JObj [(''name'', JStr ''Faker'')]]))
      \<lparr>reachable = True, table_exists = False, table = Map.empty\<rparr> =
     \<lparr>outcome = Returned, printed = [TableMissing], connection = Closed,
      db = \<lparr>reachable = True, table_exists = False, table = Map.empty\<rparr>\<rparr> \<and>
   import_players top (Inr (JInt 4))
      \<lparr>reachable = True, table_exists = True, table = Map.empty\<rparr> =
     \<lparr>outcome = Returned, printed = [UnsupportedFormat], connection = Closed,
      db = \<lparr>reachable = True, table_exists = True, table = Map.empty\<rparr>\<rparr> \<and>
   import_players top (Inr (JObj [(''players'', JArr [])]))
      \<lparr>reachable = True, table_exists = True, table = Map.empty\<rparr> =
     \<lparr>outcome = Returned, printed = [NoPlayersFound], connection = Closed,
      db = \<lparr>reachable = True, table_exists = True, table = Map.empty\<rparr>\<rparr> \<and>
   import_worlds_players top (Inr (JObj [(''p1'', JObj [])]))
      \<lparr>reachable = True, table_exists = False, table = Map.empty\<rparr> =
     \<lparr>outcome = Returned, printed = [TableMissing], connection = Closed,
      db = \<lparr>reachable = True, table_exists = False, table = Map.empty\<rparr>\<rparr> \<and>
   import_worlds_players top (Inr (JArr []))
      \<lparr>reachable = True, table_exists = True, table = Map.empty\<rparr> =
     \<lparr>outcome = Returned, printed = [ImportError AttributeError], connection = Open,
      db = \<lparr>reachable = True, table_exists = True, table = Map.empty\<rparr>\<rparr> \<and>
   import_worlds_players top (Inr (JObj []))
      \<lparr>reachable = True, table_exists = True, table = Map.empty\<rparr> =
     \<lparr>outcome = Returned, printed = [NoPlayersFound], connection = Closed,
      db = \<lparr>reachable = True, table_exists = True, table = Map.empty\<rparr>\<rparr>"
proof -
  let ?p_none = "\<lparr>reachable = True, table_exists = False,
                   table = (Map.empty :: json \<rightharpoonup> player_columns)\<rparr>"
  let ?p_db = "\<lparr>reachable = True, table_exists = True,
                 table = (Map.empty :: json \<rightharpoonup> player_columns)\<rparr>"
  let ?w_none = "\<lparr>reachable = True, table_exists = False,
                   table = (Map.empty :: string \<rightharpoonup> worlds_columns)\<rparr>"
  let ?w_db = "\<lparr>reachable = True, table_exists = True,
                 table = (Map.empty :: string \<rightharpoonup> worlds_columns)\<rparr>"
  note a = early_aborts_write_nothing [where p_db = ?p_none and w_db = ?w_none
      and p_accepts = top and w_accepts = top
      and p_data = "JArr [JObj [(''name'', JStr ''Faker'')]]"
      and w_data = "JObj [(''p1'', JObj [])]"]
  note b = early_aborts_write_nothing [where p_db = ?p_db and w_db = ?w_db
      and p_accepts = top and w_accepts = top
      and p_data = "JInt 4" and w_data = "JArr []"]
  note c = early_aborts_write_nothing [where p_db = ?p_db and w_db = ?w_db
      and p_accepts = top and w_accepts = top
      and p_data = "JObj [(''players'', JArr [])]" and w_data = "JObj []"]
  from a b c show ?thesis
    by simp
qed

text \<open>
  Claim C3, as the specification states it, fails: a mapping with a key \<open>players\<close>
  whose value is not a sequence is not read through its values. At
  \<^verbatim>\<open>{"players": {"name": "Faker"}}\<close> the importer takes the inner dict for the list
  of players, iterates over its keys and stops on a \<^verbatim>\<open>TypeError\<close> with nothing
  written, where the specification's reading takes the values of the outer dict, one
  record, and imports it.
\<close>

theorem shape_resolution_counterexample:
  "resolve_player_list (JObj [(''players'', JObj [(''name'', JStr ''Faker'')])]) =
     Some (JObj [(''name'', JStr ''Faker'')]) \<and>
   spec_resolve_player_list (JObj [(''players'', JObj [(''name'', JStr ''Faker'')])]) =
     Some (JArr [JObj [(''name'', JStr ''Faker'')]]) \<and>
   import_players top (Inr (JObj [(''players'', JObj [(''name'', JStr ''Faker'')])]))
      \<lparr>reachable = True, table_exists = True, table = Map.empty\<rparr> =
     \<lparr>outcome = Returned, printed = [ImportError TypeError], connection = Open,
      db = \<lparr>reachable = True, table_exists = True, table = Map.empty\<rparr>\<rparr> \<and>
   import_player_list top \<lparr>reachable = True, table_exists = True, table = Map.empty\<rparr>
      (JArr [JObj [(''name'', JStr ''Faker'')]]) =
     \<lparr>outcome = Returned, printed = [Imported 1], connection = Closed,
      db = \<lparr>reachable = True, table_exists = True,
            table = [JStr ''Faker'' \<mapsto>
              (JStr ''Unknown'', JStr ''Unknown'', JStr ''Unknown'', JBool True, JInt 2010,
               JStr ''Unknown'', JNull)]\<rparr>\<rparr>"
  by (simp add: dict_get_def import_players_def import_player_list_def py_bind_def
      players_process_player_data_def defaults_def fill_default_def player_tuple_def
      insert_and_commit_def execute_values_def pages_short execute_page_def page_ok_def
      players_accepts_def)

text \<open>
  Claim C3, amended. With the connection made and the table there, the roster
  importer works on the parsed value itself when it is a list; on the value under
  \<open>players\<close> when it is a dict with that key, whatever that value is (it is not
  checked to be a list); on the list of the dict's values when it is a dict without
  that key; and on anything else it prints the line on the unsupported format, closes
  the connection and leaves the table as it was.
\<close>

theorem shape_resolution:
  assumes "reachable start" and "table_exists start"
  shows
    "(is_list data \<longrightarrow>
        import_players accepts (Inr data) start = import_player_list accepts start data) \<and>
     (\<forall>d v. data = JObj d \<and> map_of d ''players'' = Some v \<longrightarrow>
        import_players accepts (Inr data) start = import_player_list accepts start v) \<and>
     (\<forall>d. data = JObj d \<and> map_of d ''players'' = None \<longrightarrow>
        import_players accepts (Inr data) start =
          import_player_list accepts start (JArr (map snd d))) \<and>
     (\<not> is_list data \<and> \<not> is_dict data \<longrightarrow>
        import_players accepts (Inr data) start =
          \<lparr>outcome = Returned, printed = [UnsupportedFormat], connection = Closed, db = start\<rparr>)"
  using assms by (cases data) (simp_all add: import_players_def)

text \<open>
  The theorem at \<^verbatim>\<open>{"players": [{"name": "X", "team": "T1"}]}\<close> (the list under
  \<open>players\<close>), at \<^verbatim>\<open>{"players": {"name": "Faker"}}\<close> (the dict under \<open>players\<close>, not
  the values), at \<^verbatim>\<open>{"a": {"name": "X"}}\<close> (the values) and at \<^verbatim>\<open>"abc"\<close>.
\<close>

theorem shape_resolution_witness:
  "import_players top
      (Inr (JObj [(''players'', JArr [JObj [(''name'', JStr ''X''), (''team'', JStr ''T1'')]])]))
      \<lparr>reachable = True, table_exists = True, table = Map.empty\<rparr> =
     import_player_list top \<lparr>reachable = True, table_exists = True, table = Map.empty\<rparr>
      (JArr [JObj [(''name'', JStr ''X''), (''team'', JStr ''T1'')]]) \<and>
   import_players top (Inr (JObj [(''players'', JObj [(''name'', JStr ''Faker'')])]))
      \<lparr>reachable = True, table_exists = True, table = Map.empty\<rparr> =
     import_player_list top \<lparr>reachable = True, table_exists = True, table = Map.empty\<rparr>
      (JObj [(''name'', JStr ''Faker'')]) \<and>
   import_players top (Inr (JObj [(''a'', JObj [(''name'', JStr ''X'')])]))
      \<lparr>reachable = True, table_exists = True, table = Map.empty\<rparr> =
     import_player_list top \<lparr>reachable = True, table_exists = True, table = Map.empty\<rparr>
      (JArr [JObj [(''name'', JStr ''X'')]]) \<and>
   import_players top (Inr (JStr ''abc''))
      \<lparr>reachable = True, table_exists = True, table = Map.empty\<rparr> =
     \<lparr>outcome = Returned, printed = [UnsupportedFormat], connection = Closed,
      db = \<lparr>reachable = True, table_exists = True, table = Map.empty\<rparr>\<rparr>"
proof -
  let ?db = "\<lparr>reachable = True, table_exists = True,
               table = (Map.empty :: json \<rightharpoonup> player_columns)\<rparr>"
  note a = shape_resolution [where start = ?db and accepts = top and
      data = "JObj [(''players'', JArr [JObj [(''name'', JStr ''X''), (''team'', JStr ''T1'')]])]"]
  note b = shape_resolution [where start = ?db and accepts = top and
      data = "JObj [(''players'', JObj [(''name'', JStr ''Faker'')])]"]
  note c = shape_resolution [where start = ?db and accepts = top and
      data = "JObj [(''a'', JObj [(''name'', JStr ''X'')])]"]
  note d = shape_resolution [where start = ?db and accepts = top and data = "JStr ''abc''"]
  from a b c d show ?thesis
    by simp
qed

text \<open>
  Claim C4 fails on the code: the connection is closed on the early returns and after
  the commit, but an exception raised once the connection is open reaches a handler
  that only prints. A batch that the database refuses leaves the connection open: two
  records with the same name in one statement for the roster importer, any row the
  schema refuses for either importer. So does an exception of the loop, such as the
  \<^verbatim>\<open>TypeError\<close> on a birthdate that is a number.
\<close>

theorem connection_left_open:
  assumes "reachable p_db" and "table_exists p_db" and "reachable w_db" and "table_exists w_db"
  shows
    "import_players p_accepts
        (Inr (JArr [JObj [(''name'', JStr ''Faker'')], JObj [(''name'', JStr ''Faker'')]])) p_db =
       \<lparr>outcome = Returned, printed = [ImportError DatabaseError], connection = Open,
        db = p_db\<rparr> \<and>
     import_worlds_players w_accepts (Inr (JObj [(''p1'', JObj [(''birthdate'', JInt 19950601)])]))
        w_db =
       \<lparr>outcome = Returned, printed = [ImportError TypeError], connection = Open, db = w_db\<rparr> \<and>
     (\<forall>rows e. rows \<noteq> [] \<and> execute_values w_accepts (table w_db) rows = Inl e \<longrightarrow>
        insert_and_commit w_accepts w_db rows =
          \<lparr>outcome = Returned, printed = [ImportError e], connection = Open, db = w_db\<rparr>)"
proof -
  have two: "pages [a, b] = [[a, b]]" for a b :: "json \<times> player_columns"
    by (simp add: pages_short)
  have roster: "import_players p_accepts
        (Inr (JArr [JObj [(''name'', JStr ''Faker'')], JObj [(''name'', JStr ''Faker'')]])) p_db =
       \<lparr>outcome = Returned, printed = [ImportError DatabaseError], connection = Open,
        db = p_db\<rparr>"
    using assms
    by (simp add: import_players_def import_player_list_def py_bind_def
        players_process_player_data_def defaults_def fill_default_def player_tuple_def
        insert_and_commit_def execute_values_def two execute_page_def page_ok_def)
  have worlds: "import_worlds_players w_accepts
        (Inr (JObj [(''p1'', JObj [(''birthdate'', JInt 19950601)])])) w_db =
       \<lparr>outcome = Returned, printed = [ImportError TypeError], connection = Open, db = w_db\<rparr>"
    using assms
    by (simp add: import_worlds_players_def py_bind_def worlds_process_player_data_dict
        birthdate_raises_def)
  from roster worlds show ?thesis
    by (simp add: insert_and_commit_raises)
qed

text \<open>The theorem on an empty table and a schema that accepts every row.\<close>

theorem connection_left_open_witness:
  "connection
     (import_players top
        (Inr (JArr [JObj [(''name'', JStr ''Faker'')], JObj [(''name'', JStr ''Faker'')]]))
        \<lparr>reachable = True, table_exists = True, table = Map.empty\<rparr>) = Open \<and>
   connection
     (import_worlds_players top (Inr (JObj [(''p1'', JObj [(''birthdate'', JInt 19950601)])]))
        \<lparr>reachable = True, table_exists = True, table = Map.empty\<rparr>) = Open"
proof -
  let ?p_db = "\<lparr>reachable = True, table_exists = True,
                 table = (Map.empty :: json \<rightharpoonup> player_columns)\<rparr>"
  let ?w_db = "\<lparr>reachable = True, table_exists = True,
                 table = (Map.empty :: string \<rightharpoonup> worlds_columns)\<rparr>"
  from connection_left_open [where p_db = ?p_db and w_db = ?w_db
      and p_accepts = top and w_accepts = top]
  show ?thesis
    by simp
qed

section \<open>What the parser of the birthdate accepts\<close>
































end
